theory Spec2Isabelle
  imports Main "HOL-Library.Word"
begin

section \<open>JavaScript values used by the program\<close>

text \<open>
  A JavaScript string is a sequence of UTF-16 code units. String literals of the
  source are written \<open>str ''...''\<close>.
\<close>

type_synonym jschar = "16 word"
type_synonym jsstring = "jschar list"
type_synonym bytes = "8 word list"

definition str :: "string \<Rightarrow> jsstring" where
  "str s = map of_char s"

text \<open>
  Truthiness of a value of type \<open>string | undefined\<close> (or \<open>string | null\<close>):
  \<open>undefined\<close>, \<open>null\<close> and the empty string are falsy.
\<close>

fun truthy :: "jsstring option \<Rightarrow> bool" where
  "truthy None = False"
| "truthy (Some s) = (s \<noteq> [])"

text \<open>
  White space and line terminators of ECMAScript (all in the Basic Multilingual Plane):
  TAB, LF, VT, FF, CR, SP, NBSP, U+1680, U+2000..U+200A, U+2028, U+2029, U+202F,
  U+205F, U+3000 and U+FEFF. \<open>String.prototype.trim\<close> removes them at both ends.
\<close>

definition is_white_space :: "jschar \<Rightarrow> bool" where
  "is_white_space c \<longleftrightarrow>
     c \<in> {0x0009, 0x000A, 0x000B, 0x000C, 0x000D, 0x0020, 0x00A0, 0x1680,
          0x2028, 0x2029, 0x202F, 0x205F, 0x3000, 0xFEFF}
     \<or> (0x2000 \<le> c \<and> c \<le> 0x200A)"

definition trim :: "jsstring \<Rightarrow> jsstring" where
  "trim s = rev (dropWhile is_white_space (rev (dropWhile is_white_space s)))"

text \<open>
  A JavaScript Number, as far as this program can tell numbers apart: \<open>NaN\<close>, an
  integer of magnitude at most \<open>2^53\<close> (held exactly by a double; \<open>+0\<close> and \<open>-0\<close> are
  both \<open>Num 0\<close>), or a Number of larger magnitude (possibly an infinity) of which only
  the sign is kept: \<open>Large True\<close> is positive, \<open>Large False\<close> negative.
\<close>

datatype jsnum = NaN | Num int | Large bool

definition number_value :: "int \<Rightarrow> jsnum" where
  "number_value k = (if \<bar>k\<bar> \<le> 2 ^ 53 then Num k else Large (0 < k))"

text \<open>The comparison \<open>x > 1\<close> on Numbers; every comparison with \<open>NaN\<close> is false.\<close>

fun greater_than_one :: "jsnum \<Rightarrow> bool" where
  "greater_than_one NaN = False"
| "greater_than_one (Num k) = (1 < k)"
| "greater_than_one (Large pos) = pos"

definition is_digit :: "jschar \<Rightarrow> bool" where
  "is_digit c \<longleftrightarrow> 0x30 \<le> c \<and> c \<le> 0x39"

definition digit_value :: "jschar \<Rightarrow> nat" where
  "digit_value c = unat c - 48"

definition digits_value :: "jsstring \<Rightarrow> nat" where
  "digits_value z = foldl (\<lambda>a c. 10 * a + digit_value c) 0 z"

text \<open>
  \<open>parseInt(s, 10)\<close>: skip leading white space, read an optional sign, read the longest
  run of decimal digits and ignore what follows; no digit gives \<open>NaN\<close>.
\<close>

definition parseInt :: "jsstring \<Rightarrow> jsnum" where
  "parseInt s =
     (let s1 = dropWhile is_white_space s;
          negative = (case s1 of [] \<Rightarrow> False | c # _ \<Rightarrow> c = 0x2D);
          s2 = (case s1 of [] \<Rightarrow> [] | c # r \<Rightarrow> if c = 0x2B \<or> c = 0x2D then r else s1);
          z = takeWhile is_digit s2
      in if z = [] then NaN
         else number_value (if negative then - int (digits_value z) else int (digits_value z)))"

text \<open>
  The decimal text of a non-negative integer, as a template literal renders
  \<open>Date.now()\<close> and the loop index.
\<close>

definition digit_char :: "nat \<Rightarrow> jschar" where
  "digit_char d = of_nat (48 + d)"

fun decimal :: "nat \<Rightarrow> jsstring" where
  "decimal k = (if k < 10 then [digit_char k] else decimal (k div 10) @ [digit_char (k mod 10)])"

declare decimal.simps [simp del]

section \<open>Data of the program\<close>

text \<open>The interface \<open>Params\<close>; \<open>prompt\<close> is \<open>string | null\<close>.\<close>

record Params =
  prompt :: "jsstring option"
  size' :: jsstring
  n :: jsnum
  model :: jsstring

text \<open>
  What \<open>program.parse()\<close> leaves behind: \<open>program.args\<close> (the positional arguments) and
  \<open>program.opts()\<close>. The options \<open>--size\<close>, \<open>--n\<close> and \<open>--model\<close> have defaults
  (\<open>'1024x1024'\<close>, \<open>'1'\<close>, \<open>'dall-e-3'\<close>) and are always strings; \<open>--prompt\<close> and
  \<open>--prompt-file\<close> are \<open>undefined\<close> when not given. Invocations that commander ends
  itself (\<open>--help\<close>, \<open>--version\<close>, a malformed command line) never reach this point.
\<close>

record parsed =
  args :: "jsstring list"
  opt_prompt :: "jsstring option"
  opt_promptFile :: "jsstring option"
  opt_size :: jsstring
  opt_n :: jsstring
  opt_model :: jsstring

text \<open>One entry of \<open>response.data\<close>, and the response of \<open>openai.images.generate\<close>.\<close>

record image =
  url :: "jsstring option"

record images_response =
  data :: "image list option"

text \<open>The error thrown by \<open>openai.images.generate\<close>, as the \<open>catch\<close> block reads it.\<close>

record error_response =
  status :: nat
  data_error_message :: "jsstring option"

record api_error =
  message :: jsstring
  response :: "error_response option"

text \<open>
  A console line is the list of the pieces it is printed from; a Number that is
  interpolated stays a Number.
\<close>

datatype piece = Str jsstring | Number jsnum

text \<open>
  Observable events, in order. \<open>Images_generate model prompt n size\<close> is the outbound
  generation call; \<open>Fetch\<close> is the download of one image; \<open>Write_file\<close> is a call of
  \<open>writeFile\<close> that completed, \<open>Write_file_failed\<close> one that was rejected.
\<close>

datatype event =
    Console_log "piece list"
  | Console_error "piece list"
  | Console_warn "piece list"
  | Images_generate jsstring jsstring jsnum jsstring
  | Fetch jsstring
  | Write_file jsstring bytes
  | Write_file_failed jsstring

record outcome =
  exit_code :: nat
  trace :: "event list"

text \<open>
  Everything outside the program. An I/O operation either fails with the message of
  the error it throws (\<open>Inl\<close>) or gives its result. The download and the write of the
  item at position \<open>i\<close> (0-based) may depend on \<open>i\<close>, and so does the clock:
  \<open>Date_now w i\<close> is what \<open>Date.now()\<close> returns while that item is saved, a number of
  milliseconds since the epoch. \<open>join\<close> is \<open>path.join\<close> and \<open>cwd\<close> is \<open>process.cwd()\<close>.
  A response with an HTTP error status is a successful \<open>fetch\<close>: the program does not
  look at the status.
\<close>

record world =
  OPENAI_API_KEY :: "jsstring option"
  readFile :: "jsstring \<Rightarrow> jsstring + jsstring"
  generate :: "jsstring \<Rightarrow> jsstring \<Rightarrow> jsnum \<Rightarrow> jsstring \<Rightarrow> api_error + images_response"
  fetch_arrayBuffer :: "nat \<Rightarrow> jsstring \<Rightarrow> jsstring + bytes"
  Date_now :: "nat \<Rightarrow> nat"
  cwd :: jsstring
  join :: "jsstring \<Rightarrow> jsstring \<Rightarrow> jsstring"
  writeFile :: "nat \<Rightarrow> jsstring \<Rightarrow> bytes \<Rightarrow> jsstring option"

section \<open>parseArgs\<close>

text \<open>
  The result is \<open>Inl\<close> when \<open>process.exit(1)\<close> ends the process inside \<open>parseArgs\<close>.
\<close>

definition parseArgs :: "world \<Rightarrow> parsed \<Rightarrow> outcome + Params" where
  "parseArgs w c =
     (let finish = (\<lambda>p. Inr \<lparr>prompt = p, size' = opt_size c, n = parseInt (opt_n c),
                              model = opt_model c\<rparr>)
      in case args c of
           a # _ \<Rightarrow> finish (Some a)
         | [] \<Rightarrow>
            if truthy (opt_prompt c) then finish (opt_prompt c)
            else if truthy (opt_promptFile c) then
              (case readFile w (the (opt_promptFile c)) of
                 Inr contents \<Rightarrow> finish (Some (trim contents))
               | Inl errorMessage \<Rightarrow>
                   Inl \<lparr>exit_code = 1,
                        trace = [Console_error
                                   [Str (str ''Error reading prompt file: '' @ errorMessage)]]\<rparr>)
            else finish None)"

section \<open>generateImages\<close>

text \<open>
  The name of the file for the entry at position \<open>i\<close> (0-based):
  \<open>`generated_image_${timestamp}_${i + 1}.png`\<close>.
\<close>

definition filename :: "nat \<Rightarrow> nat \<Rightarrow> jsstring" where
  "filename timestamp i =
     str ''generated_image_'' @ decimal timestamp @ str ''_'' @ decimal (i + 1) @ str ''.png''"

text \<open>The body of the download loop, for the entry at position \<open>i\<close> (0-based).\<close>

definition download_item :: "world \<Rightarrow> nat \<Rightarrow> image \<Rightarrow> event list" where
  "download_item w i imageData =
     (if \<not> truthy (url imageData) then
        [Console_error [Str (str ''Image ''), Number (Num (int i + 1)),
                        Str (str '': No URL returned'')]]
      else
        let imageUrl = the (url imageData) in
        [Console_log [Str (0x0A # str ''Image ''), Number (Num (int i + 1)), Str (str '':'')],
         Console_log [Str (str ''URL: '' @ imageUrl)],
         Fetch imageUrl] @
        (case fetch_arrayBuffer w i imageUrl of
           Inl errorMessage \<Rightarrow>
             [Console_error [Str (str ''Failed to download image ''), Number (Num (int i + 1)),
                             Str (str '': ''), Str errorMessage]]
         | Inr buffer \<Rightarrow>
             let timestamp = Date_now w i;
                 filepath = join w (cwd w) (filename timestamp i)
             in (case writeFile w i filepath buffer of
                   None \<Rightarrow>
                     [Write_file filepath buffer,
                      Console_log [Str (str ''Saved to: '' @ filepath)]]
                 | Some errorMessage \<Rightarrow>
                     [Write_file_failed filepath,
                      Console_error [Str (str ''Failed to download image ''),
                                     Number (Num (int i + 1)),
                                     Str (str '': ''), Str errorMessage]])))"

text \<open>The loop \<open>for (let i = 0; i < response.data.length; i++)\<close>, from position \<open>i\<close> on.\<close>

fun download_loop :: "world \<Rightarrow> nat \<Rightarrow> image list \<Rightarrow> event list" where
  "download_loop w i [] = []"
| "download_loop w i (imageData # rest) = download_item w i imageData @ download_loop w (Suc i) rest"

text \<open>The outer \<open>catch\<close> block, before its \<open>process.exit(1)\<close>.\<close>

definition report_error :: "api_error \<Rightarrow> event list" where
  "report_error error =
     Console_error [Str (0x0A # str ''Error generating images:'')] #
     (case response error of
        Some r \<Rightarrow>
          [Console_error [Str (str ''Status: ''), Number (Num (int (status r)))],
           Console_error [Str (str ''Message: '' @
              (if truthy (data_error_message r) then the (data_error_message r)
               else message error))]]
      | None \<Rightarrow> [Console_error [Str (message error)]])"

definition single_image_only :: "jsstring \<Rightarrow> bool" where
  "single_image_only m \<longleftrightarrow> m \<in> set [str ''dall-e-3'', str ''gpt-image'', str ''gpt-image-mini'']"

definition generateImages :: "world \<Rightarrow> Params \<Rightarrow> outcome" where
  "generateImages w params =
     (if \<not> truthy (OPENAI_API_KEY w) then
        \<lparr>exit_code = 1,
         trace = [Console_error [Str (str ''Error: OPENAI_API_KEY environment variable is not set'')],
                  Console_error [Str (str ''Please set your OpenAI API key: export OPENAI_API_KEY=your-key-here'')]]\<rparr>
      else if \<not> truthy (prompt params) then
        \<lparr>exit_code = 1,
         trace = [Console_error [Str (str ''Error: Prompt is required'')],
                  Console_error [Str (str ''Use --help for usage information'')]]\<rparr>
      else
        let clamped = (single_image_only (model params) \<and> greater_than_one (n params));
            warning = (if clamped then
                         [Console_warn [Str (str ''Warning: '' @ model params @
                                             str '' only supports n=1. Setting n to 1.'')]]
                       else []);
            params' = (if clamped then params\<lparr>n := Num 1\<rparr> else params);
            started = warning @
              [Console_log [Str (str ''Generating ''), Number (n params'),
                            Str (str '' image(s) with '' @ model params' @ str ''...'')],
               Console_log [Str (str ''Prompt: '' @ the (prompt params'))],
               Console_log [Str (str ''Size: '' @ size' params')],
               Images_generate (model params') (the (prompt params')) (n params') (size' params')]
        in case generate w (model params') (the (prompt params')) (n params') (size' params') of
             Inl error \<Rightarrow> \<lparr>exit_code = 1, trace = started @ report_error error\<rparr>
           | Inr res \<Rightarrow>
               let entries = (case data res of None \<Rightarrow> [] | Some ds \<Rightarrow> ds);
                   generated = started @
                     [Console_log [Str (0x0A # str ''Successfully generated ''),
                                   Number (Num (int (length entries))), Str (str '' image(s):'')]]
               in if entries = [] then
                    \<lparr>exit_code = 1,
                     trace = generated @ [Console_error [Str (str ''No images were generated'')]]\<rparr>
                  else
                    \<lparr>exit_code = 0,
                     trace = generated @ download_loop w 0 entries
                             @ [Console_log [Str (0x0A # str ''Done!'')]]\<rparr>)"

section \<open>The whole process\<close>

text \<open>\<open>parseArgs().then(params => generateImages(params))\<close>.\<close>

definition main :: "world \<Rightarrow> parsed \<Rightarrow> outcome" where
  "main w c = (case parseArgs w c of Inl stopped \<Rightarrow> stopped | Inr params \<Rightarrow> generateImages w params)"

section \<open>Reading a trace\<close>

fun generation_calls :: "event list \<Rightarrow> (jsstring \<times> jsstring \<times> jsnum \<times> jsstring) list" where
  "generation_calls [] = []"
| "generation_calls (Images_generate m p k s # es) = (m, p, k, s) # generation_calls es"
| "generation_calls (_ # es) = generation_calls es"

fun fetches :: "event list \<Rightarrow> jsstring list" where
  "fetches [] = []"
| "fetches (Fetch u # es) = u # fetches es"
| "fetches (_ # es) = fetches es"

fun files_written :: "event list \<Rightarrow> jsstring list" where
  "files_written [] = []"
| "files_written (Write_file path _ # es) = path # files_written es"
| "files_written (_ # es) = files_written es"

fun warnings :: "event list \<Rightarrow> piece list list" where
  "warnings [] = []"
| "warnings (Console_warn line # es) = line # warnings es"
| "warnings (_ # es) = warnings es"

fun errors_reported :: "event list \<Rightarrow> piece list list" where
  "errors_reported [] = []"
| "errors_reported (Console_error line # es) = line # errors_reported es"
| "errors_reported (_ # es) = errors_reported es"

section \<open>Notions used to state the properties\<close>

definition is_positive_integer :: "jsnum \<Rightarrow> bool" where
  "is_positive_integer x = (case x of Num k \<Rightarrow> 0 < k | _ \<Rightarrow> False)"

text \<open>The count that \<open>generateImages\<close> sends for a requested count, by model.\<close>

definition effective_count :: "jsstring \<Rightarrow> jsnum \<Rightarrow> jsnum" where
  "effective_count m k = (if single_image_only m \<and> greater_than_one k then Num 1 else k)"

text \<open>What is printed for a missing credential and for a missing prompt.\<close>

definition credential_error :: "event list" where
  "credential_error =
     [Console_error [Str (str ''Error: OPENAI_API_KEY environment variable is not set'')],
      Console_error [Str (str ''Please set your OpenAI API key: export OPENAI_API_KEY=your-key-here'')]]"

definition missing_prompt_error :: "event list" where
  "missing_prompt_error =
     [Console_error [Str (str ''Error: Prompt is required'')],
      Console_error [Str (str ''Use --help for usage information'')]]"

text \<open>The warning line for a single-image-only model.\<close>

definition single_image_warning :: "jsstring \<Rightarrow> piece list" where
  "single_image_warning m =
     [Str (str ''Warning: '' @ m @ str '' only supports n=1. Setting n to 1.'')]"

text \<open>The error lines that report a failure of the entry at position \<open>i\<close>.\<close>

definition download_failure :: "nat \<Rightarrow> jsstring \<Rightarrow> piece list" where
  "download_failure i errorMessage =
     [Str (str ''Failed to download image ''), Number (Num (int i + 1)),
      Str (str '': ''), Str errorMessage]"

definition no_url_failure :: "nat \<Rightarrow> piece list" where
  "no_url_failure i =
     [Str (str ''Image ''), Number (Num (int i + 1)), Str (str '': No URL returned'')]"

text \<open>The path of the file written for the entry at position \<open>i\<close>.\<close>

definition filepath :: "world \<Rightarrow> nat \<Rightarrow> jsstring" where
  "filepath w i = join w (cwd w) (filename (Date_now w i) i)"

section \<open>Example invocations\<close>

definition example_world :: world where
  "example_world =
     \<lparr>OPENAI_API_KEY = Some (str ''sk-test''),
      readFile = (\<lambda>path. if path = str ''prompt.txt'' then Inr (str '' A sunset '')
                         else if path = str ''blank.txt'' then Inr (str ''  '')
                         else Inl (str ''ENOENT: no such file or directory'')),
      generate = (\<lambda>m p k s. Inr \<lparr>data = Some [\<lparr>url = Some (str ''https://img/a'')\<rparr>,
                                                \<lparr>url = None\<rparr>,
                                                \<lparr>url = Some (str ''https://img/c'')\<rparr>]\<rparr>),
      fetch_arrayBuffer = (\<lambda>i u. Inr [0x89, 0x50]),
      Date_now = (\<lambda>i. 1700000000000 + i),
      cwd = str ''/home/user'',
      join = (\<lambda>dir name. dir @ str ''/'' @ name),
      writeFile = (\<lambda>i path buffer. None)\<rparr>"

definition no_key_world :: world where
  "no_key_world = example_world\<lparr>OPENAI_API_KEY := None\<rparr>"

definition empty_response_world :: world where
  "empty_response_world = example_world\<lparr>generate := (\<lambda>m p k s. Inr \<lparr>data = Some []\<rparr>)\<rparr>"

definition no_data_world :: world where
  "no_data_world = example_world\<lparr>generate := (\<lambda>m p k s. Inr \<lparr>data = None\<rparr>)\<rparr>"

definition failing_world :: world where
  "failing_world =
     example_world\<lparr>fetch_arrayBuffer := (\<lambda>i u. if i = 0 then Inl (str ''fetch failed'') else Inr []),
                   writeFile := (\<lambda>i path buffer. Some (str ''EACCES: permission denied''))\<rparr>"

definition default_options :: parsed where
  "default_options =
     \<lparr>args = [], opt_prompt = None, opt_promptFile = None, opt_size = str ''1024x1024'',
      opt_n = str ''1'', opt_model = str ''dall-e-3''\<rparr>"

definition positional_cli :: parsed where
  "positional_cli = default_options\<lparr>args := [str ''A sunset'']\<rparr>"

definition flag_cli :: parsed where
  "flag_cli = default_options\<lparr>opt_prompt := Some (str ''A cat'')\<rparr>"

definition file_cli :: parsed where
  "file_cli = default_options\<lparr>opt_promptFile := Some (str ''prompt.txt'')\<rparr>"

definition missing_file_cli :: parsed where
  "missing_file_cli = default_options\<lparr>opt_promptFile := Some (str ''nowhere.txt'')\<rparr>"

definition empty_flag_file_cli :: parsed where
  "empty_flag_file_cli =
     default_options\<lparr>opt_prompt := Some [], opt_promptFile := Some (str ''prompt.txt'')\<rparr>"

definition empty_positional_cli :: parsed where
  "empty_positional_cli = default_options\<lparr>args := [[]]\<rparr>"

definition empty_flag_cli :: parsed where
  "empty_flag_cli = default_options\<lparr>opt_prompt := Some []\<rparr>"

definition blank_file_cli :: parsed where
  "blank_file_cli = default_options\<lparr>opt_promptFile := Some (str ''blank.txt'')\<rparr>"

definition three_flagship :: Params where
  "three_flagship =
     \<lparr>prompt = Some (str ''A sunset''), size' = str ''1024x1024'', n = Num 3,
      model = str ''dall-e-3''\<rparr>"

definition three_legacy :: Params where
  "three_legacy = three_flagship\<lparr>model := str ''dall-e-2''\<rparr>"

definition zero_count_cli :: parsed where
  "zero_count_cli = positional_cli\<lparr>opt_n := str ''0''\<rparr>"

definition three_legacy_cli :: parsed where
  "three_legacy_cli = positional_cli\<lparr>opt_n := str ''3'', opt_model := str ''dall-e-2''\<rparr>"

section \<open>Facts about traces\<close>

lemmas example_defs =
  example_world_def no_key_world_def empty_response_world_def no_data_world_def failing_world_def
  default_options_def positional_cli_def flag_cli_def file_cli_def missing_file_cli_def
  empty_flag_file_cli_def empty_positional_cli_def empty_flag_cli_def blank_file_cli_def
  zero_count_cli_def three_legacy_cli_def three_flagship_def
  three_legacy_def

lemmas js_defs =
  str_def is_white_space_def trim_def is_digit_def digit_value_def digits_value_def
  number_value_def parseInt_def digit_char_def

lemma generation_calls_append [simp]:
  "generation_calls (xs @ ys) = generation_calls xs @ generation_calls ys"
  by (induction xs rule: generation_calls.induct) simp_all

lemma fetches_append [simp]: "fetches (xs @ ys) = fetches xs @ fetches ys"
  by (induction xs rule: fetches.induct) simp_all

lemma files_written_append [simp]:
  "files_written (xs @ ys) = files_written xs @ files_written ys"
  by (induction xs rule: files_written.induct) simp_all

lemma warnings_append [simp]: "warnings (xs @ ys) = warnings xs @ warnings ys"
  by (induction xs rule: warnings.induct) simp_all

lemma errors_reported_append [simp]:
  "errors_reported (xs @ ys) = errors_reported xs @ errors_reported ys"
  by (induction xs rule: errors_reported.induct) simp_all

lemma errors_reported_concat:
  "errors_reported (concat xss) = concat (map errors_reported xss)"
  by (induction xss) simp_all

lemma files_written_concat:
  "files_written (concat xss) = concat (map files_written xss)"
  by (induction xss) simp_all

lemma concat_optional:
  "concat (map (\<lambda>x. if P x then [f x] else []) xs) = map f (filter P xs)"
  by (induction xs) simp_all

subsection \<open>One entry\<close>

lemma generation_calls_download_item [simp]: "generation_calls (download_item w i d) = []"
  by (simp add: download_item_def Let_def split: sum.split option.split)

lemma warnings_download_item [simp]: "warnings (download_item w i d) = []"
  by (simp add: download_item_def Let_def split: sum.split option.split)

lemma fetches_download_item:
  "fetches (download_item w i d) = (if truthy (url d) then [the (url d)] else [])"
  by (simp add: download_item_def Let_def split: sum.split option.split)

lemma files_written_download_item:
  "files_written (download_item w i d) =
     (if truthy (url d) \<and> (\<exists>buffer. fetch_arrayBuffer w i (the (url d)) = Inr buffer
                                  \<and> writeFile w i (filepath w i) buffer = None)
      then [filepath w i] else [])"
  by (auto simp add: download_item_def filepath_def Let_def split: sum.split option.split)

lemma errors_reported_download_item:
  "errors_reported (download_item w i d) =
     (if \<not> truthy (url d) then [no_url_failure i]
      else case fetch_arrayBuffer w i (the (url d)) of
             Inl errorMessage \<Rightarrow> [download_failure i errorMessage]
           | Inr buffer \<Rightarrow>
               (case writeFile w i (filepath w i) buffer of
                  None \<Rightarrow> []
                | Some errorMessage \<Rightarrow> [download_failure i errorMessage]))"
  by (simp add: download_item_def filepath_def no_url_failure_def download_failure_def Let_def
           split: sum.split option.split)

subsection \<open>The loop\<close>

lemma generation_calls_download_loop [simp]: "generation_calls (download_loop w i ds) = []"
  by (induction ds arbitrary: i) simp_all

lemma warnings_download_loop [simp]: "warnings (download_loop w i ds) = []"
  by (induction ds arbitrary: i) simp_all

text \<open>Every entry is processed, in order, whatever happened to the entries before it.\<close>

lemma download_loop_concat:
  "download_loop w i ds = concat (map (\<lambda>j. download_item w (i + j) (ds ! j)) [0..<length ds])"
proof (induction ds arbitrary: i)
  case Nil
  show ?case by simp
next
  case (Cons d ds)
  have "[0..<length (d # ds)] = 0 # map Suc [0..<length ds]"
    by (simp add: upt_conv_Cons map_Suc_upt del: upt_Suc)
  then show ?case
    by (simp add: Cons.IH comp_def del: upt_Suc)
qed

lemma fetches_download_loop:
  "fetches (download_loop w i ds) = map (\<lambda>d. the (url d)) (filter (\<lambda>d. truthy (url d)) ds)"
  by (induction ds arbitrary: i) (simp_all add: fetches_download_item)

subsection \<open>The other blocks\<close>

lemma generation_calls_report_error [simp]: "generation_calls (report_error e) = []"
  by (simp add: report_error_def split: option.split)

lemma fetches_report_error [simp]: "fetches (report_error e) = []"
  by (simp add: report_error_def split: option.split)

lemma files_written_report_error [simp]: "files_written (report_error e) = []"
  by (simp add: report_error_def split: option.split)

lemma warnings_report_error [simp]: "warnings (report_error e) = []"
  by (simp add: report_error_def split: option.split)

section \<open>The paths through the program\<close>

lemma parseArgs_cases:
  "parseArgs w c =
     (if args c = [] \<and> \<not> truthy (opt_prompt c) \<and> truthy (opt_promptFile c)
         \<and> isl (readFile w (the (opt_promptFile c)))
      then Inl \<lparr>exit_code = 1,
                trace = [Console_error [Str (str ''Error reading prompt file: ''
                           @ projl (readFile w (the (opt_promptFile c))))]]\<rparr>
      else Inr \<lparr>prompt = (case args c of a # _ \<Rightarrow> Some a | [] \<Rightarrow>
                    if truthy (opt_prompt c) then opt_prompt c
                    else if truthy (opt_promptFile c)
                      then Some (trim (projr (readFile w (the (opt_promptFile c)))))
                    else None),
                size' = opt_size c, n = parseInt (opt_n c), model = opt_model c\<rparr>)"
  by (auto simp add: parseArgs_def Let_def split: list.split sum.split)

lemma parseArgs_Inr:
  assumes "parseArgs w c = Inr p"
  shows "size' p = opt_size c" and "n p = parseInt (opt_n c)" and "model p = opt_model c"
  using assms by (auto simp add: parseArgs_cases split: if_splits)

lemma main_stopped:
  assumes "isl (parseArgs w c)"
  shows "main w c = \<lparr>exit_code = 1,
                      trace = [Console_error [Str (str ''Error reading prompt file: ''
                                 @ projl (readFile w (the (opt_promptFile c))))]]\<rparr>"
  using assms by (simp add: main_def parseArgs_cases split: if_splits)

lemma main_resolved: "parseArgs w c = Inr p \<Longrightarrow> main w c = generateImages w p"
  by (simp add: main_def)

lemma generateImages_no_key:
  "\<not> truthy (OPENAI_API_KEY w) \<Longrightarrow> generateImages w p = \<lparr>exit_code = 1, trace = credential_error\<rparr>"
  by (simp add: generateImages_def credential_error_def)

lemma generateImages_no_prompt:
  "truthy (OPENAI_API_KEY w) \<Longrightarrow> \<not> truthy (prompt p) \<Longrightarrow>
     generateImages w p = \<lparr>exit_code = 1, trace = missing_prompt_error\<rparr>"
  by (simp add: generateImages_def missing_prompt_error_def)

lemma generateImages_reached:
  assumes "truthy (OPENAI_API_KEY w)" and "truthy (prompt p)"
  shows "\<exists>started.
           generation_calls started
             = [(model p, the (prompt p), effective_count (model p) (n p), size' p)]
         \<and> fetches started = [] \<and> files_written started = [] \<and> errors_reported started = []
         \<and> warnings started
             = (if single_image_only (model p) \<and> greater_than_one (n p)
                then [single_image_warning (model p)] else [])
         \<and> generateImages w p =
             (case generate w (model p) (the (prompt p)) (effective_count (model p) (n p)) (size' p) of
                Inl error \<Rightarrow> \<lparr>exit_code = 1, trace = started @ report_error error\<rparr>
              | Inr res \<Rightarrow>
                  (let entries = (case data res of None \<Rightarrow> [] | Some ds \<Rightarrow> ds);
                       generated = started @
                         [Console_log [Str (0x0A # str ''Successfully generated ''),
                                       Number (Num (int (length entries))), Str (str '' image(s):'')]]
                   in if entries = [] then
                        \<lparr>exit_code = 1,
                         trace = generated @ [Console_error [Str (str ''No images were generated'')]]\<rparr>
                      else
                        \<lparr>exit_code = 0,
                         trace = generated @ download_loop w 0 entries
                                 @ [Console_log [Str (0x0A # str ''Done!'')]]\<rparr>))"
proof (cases "single_image_only (model p) \<and> greater_than_one (n p)")
  case True
  let ?started = "[Console_warn (single_image_warning (model p)),
     Console_log [Str (str ''Generating ''), Number (Num 1),
                  Str (str '' image(s) with '' @ model p @ str ''...'')],
     Console_log [Str (str ''Prompt: '' @ the (prompt p))],
     Console_log [Str (str ''Size: '' @ size' p)],
     Images_generate (model p) (the (prompt p)) (Num 1) (size' p)]"
  show ?thesis
    apply (rule exI [of _ ?started])
    using assms
    apply (simp add: True generateImages_def effective_count_def single_image_warning_def Let_def
                split: sum.split)
    done
next
  case False
  let ?started = "[
     Console_log [Str (str ''Generating ''), Number (n p),
                  Str (str '' image(s) with '' @ model p @ str ''...'')],
     Console_log [Str (str ''Prompt: '' @ the (prompt p))],
     Console_log [Str (str ''Size: '' @ size' p)],
     Images_generate (model p) (the (prompt p)) (n p) (size' p)]"
  show ?thesis
    apply (rule exI [of _ ?started])
    using assms
    apply (simp add: False generateImages_def effective_count_def single_image_warning_def Let_def
                split: sum.split)
    done
qed

lemma generateImages_calls:
  "generation_calls (trace (generateImages w p)) =
     (if truthy (OPENAI_API_KEY w) \<and> truthy (prompt p)
      then [(model p, the (prompt p), effective_count (model p) (n p), size' p)] else [])"
proof (cases "truthy (OPENAI_API_KEY w) \<and> truthy (prompt p)")
  case True
  then obtain started where
    "generation_calls started
       = [(model p, the (prompt p), effective_count (model p) (n p), size' p)]"
    and "generateImages w p =
             (case generate w (model p) (the (prompt p)) (effective_count (model p) (n p)) (size' p) of
                Inl error \<Rightarrow> \<lparr>exit_code = 1, trace = started @ report_error error\<rparr>
              | Inr res \<Rightarrow>
                  (let entries = (case data res of None \<Rightarrow> [] | Some ds \<Rightarrow> ds);
                       generated = started @
                         [Console_log [Str (0x0A # str ''Successfully generated ''),
                                       Number (Num (int (length entries))), Str (str '' image(s):'')]]
                   in if entries = [] then
                        \<lparr>exit_code = 1,
                         trace = generated @ [Console_error [Str (str ''No images were generated'')]]\<rparr>
                      else
                        \<lparr>exit_code = 0,
                         trace = generated @ download_loop w 0 entries
                                 @ [Console_log [Str (0x0A # str ''Done!'')]]\<rparr>))"
    using generateImages_reached [of w p] by blast
  with True show ?thesis by (simp add: Let_def split: sum.split)
next
  case False
  then show ?thesis
    by (cases "truthy (OPENAI_API_KEY w)")
       (simp_all add: generateImages_no_key generateImages_no_prompt credential_error_def
          missing_prompt_error_def)
qed

text \<open>An invocation that made the generation call got through both checks.\<close>

lemma main_called:
  assumes "generation_calls (trace (main w c)) = [(m, q, k, s)]"
  shows "\<exists>p. parseArgs w c = Inr p \<and> truthy (OPENAI_API_KEY w) \<and> truthy (prompt p)
             \<and> m = model p \<and> q = the (prompt p) \<and> k = effective_count (model p) (n p)
             \<and> s = size' p"
proof (cases "parseArgs w c")
  case (Inl stopped)
  then have "isl (parseArgs w c)" by simp
  from main_stopped [OF this] assms show ?thesis by simp
next
  case (Inr p)
  with assms have "generation_calls (trace (generateImages w p)) = [(m, q, k, s)]"
    by (simp add: main_def)
  then show ?thesis
    using Inr by (auto simp add: generateImages_calls split: if_splits)
qed

section \<open>Prompt resolution\<close>

text \<open>
  C1 (as amended). The prompt is resolved with fixed precedence: a positional argument,
  when present, is used verbatim; otherwise a non-empty \<open>--prompt\<close> value is used;
  otherwise, when a non-empty \<open>--prompt-file\<close> path is given and the file can be read,
  its trimmed contents are used. The other fields are the option values as given, the
  count parsed by \<open>parseInt\<close>.
\<close>

theorem prompt_precedence:
  "(\<forall>a rest. args c = a # rest \<longrightarrow>
      parseArgs w c = Inr \<lparr>prompt = Some a, size' = opt_size c, n = parseInt (opt_n c),
                            model = opt_model c\<rparr>)
   \<and> (\<forall>v. args c = [] \<and> opt_prompt c = Some v \<and> v \<noteq> [] \<longrightarrow>
      parseArgs w c = Inr \<lparr>prompt = Some v, size' = opt_size c, n = parseInt (opt_n c),
                            model = opt_model c\<rparr>)
   \<and> (\<forall>path contents. args c = [] \<and> \<not> truthy (opt_prompt c)
         \<and> opt_promptFile c = Some path \<and> path \<noteq> [] \<and> readFile w path = Inr contents \<longrightarrow>
      parseArgs w c = Inr \<lparr>prompt = Some (trim contents), size' = opt_size c,
                            n = parseInt (opt_n c), model = opt_model c\<rparr>)"
  by (simp add: parseArgs_def)

theorem prompt_precedence_witness:
  "args positional_cli = [str ''A sunset'']
   \<and> parseArgs example_world positional_cli
       = Inr \<lparr>prompt = Some (str ''A sunset''), size' = str ''1024x1024'', n = Num 1,
              model = str ''dall-e-3''\<rparr>
   \<and> args flag_cli = [] \<and> opt_prompt flag_cli = Some (str ''A cat'')
   \<and> parseArgs example_world flag_cli
       = Inr \<lparr>prompt = Some (str ''A cat''), size' = str ''1024x1024'', n = Num 1,
              model = str ''dall-e-3''\<rparr>
   \<and> args file_cli = [] \<and> \<not> truthy (opt_prompt file_cli)
   \<and> opt_promptFile file_cli = Some (str ''prompt.txt'')
   \<and> readFile example_world (str ''prompt.txt'') = Inr (str '' A sunset '')
   \<and> parseArgs example_world file_cli
       = Inr \<lparr>prompt = Some (str ''A sunset''), size' = str ''1024x1024'', n = Num 1,
              model = str ''dall-e-3''\<rparr>"
proof -
  have one: "parseInt (str ''1'') = Num 1"
    by (simp add: js_defs)
  have trimmed: "trim (str '' A sunset '') = str ''A sunset''"
    by (simp add: js_defs)
  have p1: "args positional_cli = [str ''A sunset'']"
    by (simp add: example_defs)
  have p2: "args flag_cli = [] \<and> opt_prompt flag_cli = Some (str ''A cat'') \<and> str ''A cat'' \<noteq> []"
    by (simp add: example_defs str_def)
  have p3: "args file_cli = [] \<and> \<not> truthy (opt_prompt file_cli)
            \<and> opt_promptFile file_cli = Some (str ''prompt.txt'') \<and> str ''prompt.txt'' \<noteq> []
            \<and> readFile example_world (str ''prompt.txt'') = Inr (str '' A sunset '')"
    by (simp add: example_defs str_def)
  have fields: "opt_size positional_cli = str ''1024x1024'' \<and> opt_n positional_cli = str ''1''
                \<and> opt_model positional_cli = str ''dall-e-3''
                \<and> opt_size flag_cli = str ''1024x1024'' \<and> opt_n flag_cli = str ''1''
                \<and> opt_model flag_cli = str ''dall-e-3''
                \<and> opt_size file_cli = str ''1024x1024'' \<and> opt_n file_cli = str ''1''
                \<and> opt_model file_cli = str ''dall-e-3''"
    by (simp add: example_defs)
  from prompt_precedence [of positional_cli example_world] p1
  have r1: "parseArgs example_world positional_cli
       = Inr \<lparr>prompt = Some (str ''A sunset''), size' = str ''1024x1024'', n = Num 1,
              model = str ''dall-e-3''\<rparr>"
    by (simp add: fields one)
  from prompt_precedence [of flag_cli example_world] p2
  have r2: "parseArgs example_world flag_cli
       = Inr \<lparr>prompt = Some (str ''A cat''), size' = str ''1024x1024'', n = Num 1,
              model = str ''dall-e-3''\<rparr>"
    by (simp add: fields one)
  from prompt_precedence [of file_cli example_world] p3
  have r3: "parseArgs example_world file_cli
       = Inr \<lparr>prompt = Some (str ''A sunset''), size' = str ''1024x1024'', n = Num 1,
              model = str ''dall-e-3''\<rparr>"
    by (simp add: fields one trimmed)
  from p1 p2 p3 r1 r2 r3 show ?thesis by simp
qed

text \<open>
  Read literally, the specification's sentence fails where an empty \<open>--prompt\<close> value is given together with
  \<open>--prompt-file\<close>: the value is present, yet the file's contents are used and sent.
\<close>

theorem prompt_precedence_counterexample:
  "args empty_flag_file_cli = [] \<and> opt_prompt empty_flag_file_cli = Some []
   \<and> parseArgs example_world empty_flag_file_cli
       = Inr \<lparr>prompt = Some (str ''A sunset''), size' = str ''1024x1024'', n = Num 1,
              model = str ''dall-e-3''\<rparr>
   \<and> generation_calls (trace (main example_world empty_flag_file_cli))
       = [(str ''dall-e-3'', str ''A sunset'', Num 1, str ''1024x1024'')]"
proof -
  have parsed: "parseArgs example_world empty_flag_file_cli
       = Inr \<lparr>prompt = Some (str ''A sunset''), size' = str ''1024x1024'', n = Num 1,
              model = str ''dall-e-3''\<rparr>"
    by (simp add: parseArgs_def example_defs js_defs)
  have key: "truthy (OPENAI_API_KEY example_world)"
    by (simp add: example_defs str_def)
  have "generation_calls (trace (main example_world empty_flag_file_cli))
       = [(str ''dall-e-3'', str ''A sunset'', Num 1, str ''1024x1024'')]"
    by (simp add: main_resolved [OF parsed] generateImages_calls key effective_count_def)
       (simp add: str_def)
  with parsed show ?thesis by (simp add: example_defs)
qed

section \<open>Fatal input errors\<close>

text \<open>
  C5 (as amended). When the credential is absent (or empty), the process exits with
  code 1 and makes no generation call; unless argument resolution has already stopped
  the process, what it prints is the credential error with its remediation line.
\<close>

theorem missing_credential:
  assumes "\<not> truthy (OPENAI_API_KEY w)"
  shows "exit_code (main w c) = 1 \<and> generation_calls (trace (main w c)) = []
         \<and> fetches (trace (main w c)) = []
         \<and> (\<not> isl (parseArgs w c) \<longrightarrow> trace (main w c) = credential_error)"
proof (cases "parseArgs w c")
  case (Inl stopped)
  then have "isl (parseArgs w c)" by simp
  from main_stopped [OF this] this show ?thesis by simp
next
  case (Inr p)
  with assms show ?thesis
    by (simp add: main_def generateImages_no_key credential_error_def)
qed

theorem missing_credential_witness:
  "\<not> truthy (OPENAI_API_KEY no_key_world) \<and> \<not> isl (parseArgs no_key_world positional_cli)
   \<and> exit_code (main no_key_world positional_cli) = 1
   \<and> generation_calls (trace (main no_key_world positional_cli)) = []
   \<and> trace (main no_key_world positional_cli) = credential_error"
proof -
  have a: "\<not> truthy (OPENAI_API_KEY no_key_world)"
    by (simp add: example_defs)
  have b: "\<not> isl (parseArgs no_key_world positional_cli)"
    by (simp add: parseArgs_def example_defs)
  from missing_credential [OF a, of positional_cli] a b show ?thesis by blast
qed

text \<open>
  Read literally, the specification's sentence fails where the credential is absent and the prompt file cannot
  be read: the process stops in \<open>parseArgs\<close> with the read error, and the credential
  error and its remediation line are never printed.
\<close>

theorem missing_credential_counterexample:
  "OPENAI_API_KEY no_key_world = None
   \<and> main no_key_world missing_file_cli
       = \<lparr>exit_code = 1,
          trace = [Console_error
                     [Str (str ''Error reading prompt file: ENOENT: no such file or directory'')]]\<rparr>
   \<and> trace (main no_key_world missing_file_cli) \<noteq> credential_error"
  by (simp add: main_def parseArgs_def credential_error_def example_defs str_def)

text \<open>
  C6 (as amended). When no prompt source yields a value, the process exits with code 1
  and makes no generation call; when the credential is set, what it prints is the
  missing-prompt error (the credential is checked first).
\<close>

theorem missing_prompt:
  assumes "args c = []" and "\<not> truthy (opt_prompt c)" and "\<not> truthy (opt_promptFile c)"
  shows "exit_code (main w c) = 1 \<and> generation_calls (trace (main w c)) = []
         \<and> fetches (trace (main w c)) = []
         \<and> (truthy (OPENAI_API_KEY w) \<longrightarrow> trace (main w c) = missing_prompt_error)"
proof -
  from assms have "parseArgs w c
      = Inr \<lparr>prompt = None, size' = opt_size c, n = parseInt (opt_n c), model = opt_model c\<rparr>"
    by (simp add: parseArgs_def)
  then show ?thesis
    by (cases "truthy (OPENAI_API_KEY w)")
       (simp_all add: main_def generateImages_no_key generateImages_no_prompt
          credential_error_def missing_prompt_error_def)
qed

theorem missing_prompt_witness:
  "args default_options = [] \<and> \<not> truthy (opt_prompt default_options)
   \<and> \<not> truthy (opt_promptFile default_options) \<and> truthy (OPENAI_API_KEY example_world)
   \<and> exit_code (main example_world default_options) = 1
   \<and> generation_calls (trace (main example_world default_options)) = []
   \<and> trace (main example_world default_options) = missing_prompt_error"
proof -
  have a: "args default_options = []" "\<not> truthy (opt_prompt default_options)"
    "\<not> truthy (opt_promptFile default_options)"
    by (simp_all add: example_defs)
  have k: "truthy (OPENAI_API_KEY example_world)"
    by (simp add: example_defs str_def)
  from missing_prompt [OF a, of example_world] a k show ?thesis by blast
qed

text \<open>
  Read literally, the specification's sentence fails where the credential is absent as well: the credential is
  checked before the prompt, so the credential error is printed, not the missing-prompt
  error.
\<close>

theorem missing_prompt_counterexample:
  "args default_options = [] \<and> opt_prompt default_options = None
   \<and> opt_promptFile default_options = None
   \<and> main no_key_world default_options = \<lparr>exit_code = 1, trace = credential_error\<rparr>
   \<and> trace (main no_key_world default_options) \<noteq> missing_prompt_error"
proof -
  have "\<not> truthy (OPENAI_API_KEY no_key_world)"
    by (simp add: example_defs)
  then have "main no_key_world default_options = \<lparr>exit_code = 1, trace = credential_error\<rparr>"
    by (simp add: main_def parseArgs_def generateImages_no_key example_defs)
  moreover have "credential_error \<noteq> missing_prompt_error"
    by (simp add: credential_error_def missing_prompt_error_def str_def)
  ultimately show ?thesis by (simp add: example_defs)
qed

text \<open>
  C7. When the prompt is to be taken from \<open>--prompt-file\<close> and reading the file fails,
  the process exits with code 1, the one line it prints ends with the message of the
  I/O error, and no network call is made.
\<close>

theorem prompt_file_unreadable:
  assumes "args c = []" and "\<not> truthy (opt_prompt c)"
    and "opt_promptFile c = Some path" and "path \<noteq> []"
    and "readFile w path = Inl errorMessage"
  shows "exit_code (main w c) = 1
         \<and> trace (main w c)
             = [Console_error [Str (str ''Error reading prompt file: '' @ errorMessage)]]
         \<and> generation_calls (trace (main w c)) = [] \<and> fetches (trace (main w c)) = []"
  using assms by (simp add: main_def parseArgs_def)

theorem prompt_file_unreadable_witness:
  "args missing_file_cli = [] \<and> \<not> truthy (opt_prompt missing_file_cli)
   \<and> opt_promptFile missing_file_cli = Some (str ''nowhere.txt'')
   \<and> readFile example_world (str ''nowhere.txt'') = Inl (str ''ENOENT: no such file or directory'')
   \<and> exit_code (main example_world missing_file_cli) = 1
   \<and> trace (main example_world missing_file_cli)
       = [Console_error [Str (str ''Error reading prompt file: ''
                               @ str ''ENOENT: no such file or directory'')]]
   \<and> generation_calls (trace (main example_world missing_file_cli)) = []
   \<and> fetches (trace (main example_world missing_file_cli)) = []"
proof -
  have a: "args missing_file_cli = []" "\<not> truthy (opt_prompt missing_file_cli)"
    "opt_promptFile missing_file_cli = Some (str ''nowhere.txt'')" "str ''nowhere.txt'' \<noteq> []"
    "readFile example_world (str ''nowhere.txt'') = Inl (str ''ENOENT: no such file or directory'')"
    by (simp_all add: example_defs str_def)
  from prompt_file_unreadable [OF a] a show ?thesis by simp
qed

text \<open>
  C10 (as amended). When the prompt source that is used yields the empty string (an
  empty positional argument; an empty \<open>--prompt\<close> value with no prompt file; a prompt
  file whose contents trim to the empty string), the prompt counts as missing: the
  process exits with code 1 and makes no network call, and when the credential is set
  what it prints is the missing-prompt error.
\<close>

theorem empty_prompt:
  assumes "(\<exists>rest. args c = [] # rest)
         \<or> (args c = [] \<and> opt_prompt c = Some [] \<and> \<not> truthy (opt_promptFile c))
         \<or> (\<exists>path contents. args c = [] \<and> \<not> truthy (opt_prompt c)
               \<and> opt_promptFile c = Some path \<and> path \<noteq> []
               \<and> readFile w path = Inr contents \<and> trim contents = [])"
  shows "exit_code (main w c) = 1 \<and> generation_calls (trace (main w c)) = []
         \<and> fetches (trace (main w c)) = []
         \<and> (truthy (OPENAI_API_KEY w) \<longrightarrow> trace (main w c) = missing_prompt_error)"
proof -
  from assms have "\<exists>p. parseArgs w c = Inr p \<and> \<not> truthy (prompt p)"
    by (auto simp add: parseArgs_def)
  then obtain p where "parseArgs w c = Inr p" and "\<not> truthy (prompt p)"
    by blast
  then show ?thesis
    by (cases "truthy (OPENAI_API_KEY w)")
       (simp_all add: main_def generateImages_no_key generateImages_no_prompt
          credential_error_def missing_prompt_error_def)
qed

theorem empty_prompt_witness:
  "args empty_positional_cli = [[]]
   \<and> trace (main example_world empty_positional_cli) = missing_prompt_error
   \<and> exit_code (main example_world empty_positional_cli) = 1
   \<and> args empty_flag_cli = [] \<and> opt_prompt empty_flag_cli = Some []
   \<and> \<not> truthy (opt_promptFile empty_flag_cli)
   \<and> trace (main example_world empty_flag_cli) = missing_prompt_error
   \<and> exit_code (main example_world empty_flag_cli) = 1
   \<and> args blank_file_cli = [] \<and> \<not> truthy (opt_prompt blank_file_cli)
   \<and> opt_promptFile blank_file_cli = Some (str ''blank.txt'')
   \<and> readFile example_world (str ''blank.txt'') = Inr (str ''  '') \<and> trim (str ''  '') = []
   \<and> trace (main example_world blank_file_cli) = missing_prompt_error
   \<and> exit_code (main example_world blank_file_cli) = 1
   \<and> truthy (OPENAI_API_KEY example_world)"
proof -
  have k: "truthy (OPENAI_API_KEY example_world)"
    by (simp add: example_defs str_def)
  have a: "args empty_positional_cli = [[]]"
    by (simp add: example_defs)
  have b: "args empty_flag_cli = [] \<and> opt_prompt empty_flag_cli = Some []
           \<and> \<not> truthy (opt_promptFile empty_flag_cli)"
    by (simp add: example_defs)
  have d: "args blank_file_cli = [] \<and> \<not> truthy (opt_prompt blank_file_cli)
           \<and> opt_promptFile blank_file_cli = Some (str ''blank.txt'') \<and> str ''blank.txt'' \<noteq> []
           \<and> readFile example_world (str ''blank.txt'') = Inr (str ''  '') \<and> trim (str ''  '') = []"
    by (simp add: example_defs js_defs)
  from a have "\<exists>rest. args empty_positional_cli = [] # rest"
    by simp
  from empty_prompt [of empty_positional_cli example_world] this k
  have ra: "trace (main example_world empty_positional_cli) = missing_prompt_error
            \<and> exit_code (main example_world empty_positional_cli) = 1"
    by blast
  from empty_prompt [of empty_flag_cli example_world] b k
  have rb: "trace (main example_world empty_flag_cli) = missing_prompt_error
            \<and> exit_code (main example_world empty_flag_cli) = 1"
    by blast
  from empty_prompt [of blank_file_cli example_world] d k
  have rd: "trace (main example_world blank_file_cli) = missing_prompt_error
            \<and> exit_code (main example_world blank_file_cli) = 1"
    by blast
  from a b d ra rb rd k show ?thesis by blast
qed

text \<open>
  Read literally, the specification's sentence fails where the credential is absent as well: with an empty
  positional argument and no credential, the credential error is printed, not the
  missing-prompt error.
\<close>

theorem empty_prompt_counterexample:
  "args empty_positional_cli = [[]] \<and> opt_prompt empty_positional_cli = None
   \<and> opt_promptFile empty_positional_cli = None
   \<and> main no_key_world empty_positional_cli = \<lparr>exit_code = 1, trace = credential_error\<rparr>
   \<and> trace (main no_key_world empty_positional_cli) \<noteq> missing_prompt_error"
proof -
  have "\<not> truthy (OPENAI_API_KEY no_key_world)"
    by (simp add: example_defs)
  then have "main no_key_world empty_positional_cli = \<lparr>exit_code = 1, trace = credential_error\<rparr>"
    by (simp add: main_def parseArgs_def generateImages_no_key example_defs)
  moreover have "credential_error \<noteq> missing_prompt_error"
    by (simp add: credential_error_def missing_prompt_error_def str_def)
  ultimately show ?thesis by (simp add: example_defs)
qed

section \<open>The count\<close>

lemma generateImages_warnings:
  assumes "truthy (OPENAI_API_KEY w)" and "truthy (prompt p)"
  shows "warnings (trace (generateImages w p)) =
           (if single_image_only (model p) \<and> greater_than_one (n p)
            then [single_image_warning (model p)] else [])"
proof -
  from generateImages_reached [OF assms] obtain started where
    "warnings started
       = (if single_image_only (model p) \<and> greater_than_one (n p)
          then [single_image_warning (model p)] else [])"
    and "generateImages w p =
             (case generate w (model p) (the (prompt p)) (effective_count (model p) (n p)) (size' p) of
                Inl error \<Rightarrow> \<lparr>exit_code = 1, trace = started @ report_error error\<rparr>
              | Inr res \<Rightarrow>
                  (let entries = (case data res of None \<Rightarrow> [] | Some ds \<Rightarrow> ds);
                       generated = started @
                         [Console_log [Str (0x0A # str ''Successfully generated ''),
                                       Number (Num (int (length entries))), Str (str '' image(s):'')]]
                   in if entries = [] then
                        \<lparr>exit_code = 1,
                         trace = generated @ [Console_error [Str (str ''No images were generated'')]]\<rparr>
                      else
                        \<lparr>exit_code = 0,
                         trace = generated @ download_loop w 0 entries
                                 @ [Console_log [Str (0x0A # str ''Done!'')]]\<rparr>))"
    by blast
  then show ?thesis
    by (simp add: Let_def split: sum.split)
qed

text \<open>
  C2. For a request that has its credential and its prompt: when the model is one of
  \<open>dall-e-3\<close>, \<open>gpt-image\<close>, \<open>gpt-image-mini\<close> and the requested count is greater than
  1, the generation call is made with count 1 and the warning is printed; for any other
  model the requested count is sent unchanged and no warning is printed.
\<close>

theorem single_image_policy:
  assumes "truthy (OPENAI_API_KEY w)" and "truthy (prompt p)"
  shows "(single_image_only (model p) \<and> greater_than_one (n p) \<longrightarrow>
            generation_calls (trace (generateImages w p))
              = [(model p, the (prompt p), Num 1, size' p)]
          \<and> warnings (trace (generateImages w p)) = [single_image_warning (model p)])
       \<and> (\<not> single_image_only (model p) \<longrightarrow>
            generation_calls (trace (generateImages w p))
              = [(model p, the (prompt p), n p, size' p)]
          \<and> warnings (trace (generateImages w p)) = [])
       \<and> (single_image_only (model p) \<longleftrightarrow>
            model p = str ''dall-e-3'' \<or> model p = str ''gpt-image''
            \<or> model p = str ''gpt-image-mini'')"
  using assms
  by (simp add: generateImages_calls generateImages_warnings effective_count_def)
     (auto simp add: single_image_only_def)

theorem single_image_policy_witness:
  "truthy (OPENAI_API_KEY example_world) \<and> truthy (prompt three_flagship)
   \<and> single_image_only (model three_flagship) \<and> greater_than_one (n three_flagship)
   \<and> generation_calls (trace (generateImages example_world three_flagship))
       = [(str ''dall-e-3'', str ''A sunset'', Num 1, str ''1024x1024'')]
   \<and> warnings (trace (generateImages example_world three_flagship))
       = [single_image_warning (str ''dall-e-3'')]
   \<and> truthy (prompt three_legacy) \<and> \<not> single_image_only (model three_legacy)
   \<and> generation_calls (trace (generateImages example_world three_legacy))
       = [(str ''dall-e-2'', str ''A sunset'', Num 3, str ''1024x1024'')]
   \<and> warnings (trace (generateImages example_world three_legacy)) = []"
proof -
  have k: "truthy (OPENAI_API_KEY example_world)"
    by (simp add: example_defs str_def)
  have f: "truthy (prompt three_flagship) \<and> single_image_only (model three_flagship)
           \<and> greater_than_one (n three_flagship)"
    by (simp add: example_defs single_image_only_def str_def)
  have l: "truthy (prompt three_legacy) \<and> \<not> single_image_only (model three_legacy)"
    by (simp add: example_defs single_image_only_def str_def)
  have fields: "model three_flagship = str ''dall-e-3'' \<and> model three_legacy = str ''dall-e-2''
     \<and> the (prompt three_flagship) = str ''A sunset'' \<and> the (prompt three_legacy) = str ''A sunset''
     \<and> size' three_flagship = str ''1024x1024'' \<and> size' three_legacy = str ''1024x1024''
     \<and> n three_legacy = Num 3"
    by (simp add: example_defs)
  from single_image_policy [of example_world three_flagship] k f fields
  have rf: "generation_calls (trace (generateImages example_world three_flagship))
              = [(str ''dall-e-3'', str ''A sunset'', Num 1, str ''1024x1024'')]
            \<and> warnings (trace (generateImages example_world three_flagship))
              = [single_image_warning (str ''dall-e-3'')]"
    by simp
  from single_image_policy [of example_world three_legacy] k l fields
  have rl: "generation_calls (trace (generateImages example_world three_legacy))
              = [(str ''dall-e-2'', str ''A sunset'', Num 3, str ''1024x1024'')]
            \<and> warnings (trace (generateImages example_world three_legacy)) = []"
    by simp
  from k f l rf rl show ?thesis by blast
qed

text \<open>
  C9 (as amended). For every invocation that reaches the generation call, the count
  sent is the Number that \<open>parseInt\<close> reads from \<open>--n\<close>, replaced by 1 when the model is
  single-image-only and that Number is greater than 1; it is a positive integer whenever
  \<open>--n\<close> parses to a positive integer. Nothing rejects a count that is zero, negative or
  \<open>NaN\<close>.
\<close>

theorem count_sent:
  assumes "generation_calls (trace (main w c)) = [(m, q, k, s)]"
  shows "k = (if single_image_only (opt_model c) \<and> greater_than_one (parseInt (opt_n c))
              then Num 1 else parseInt (opt_n c))
         \<and> (is_positive_integer (parseInt (opt_n c)) \<longrightarrow> is_positive_integer k)"
proof -
  from main_called [OF assms] obtain p where
    "parseArgs w c = Inr p" and "k = effective_count (model p) (n p)"
    by blast
  then have "k = effective_count (opt_model c) (parseInt (opt_n c))"
    by (simp add: parseArgs_Inr)
  then show ?thesis
    by (simp add: effective_count_def is_positive_integer_def)
qed

lemma positional_cli_parsed:
  "parseArgs w positional_cli
     = Inr \<lparr>prompt = Some (str ''A sunset''), size' = str ''1024x1024'', n = Num 1,
            model = str ''dall-e-3''\<rparr>"
  by (simp add: parseArgs_def example_defs js_defs)

lemma three_legacy_cli_parsed:
  "parseArgs w three_legacy_cli
     = Inr \<lparr>prompt = Some (str ''A sunset''), size' = str ''1024x1024'', n = Num 3,
            model = str ''dall-e-2''\<rparr>"
  by (simp add: parseArgs_def example_defs js_defs)

lemma zero_count_cli_parsed:
  "parseArgs w zero_count_cli
     = Inr \<lparr>prompt = Some (str ''A sunset''), size' = str ''1024x1024'', n = Num 0,
            model = str ''dall-e-3''\<rparr>"
  by (simp add: parseArgs_def example_defs js_defs)

lemma example_key:
  "truthy (OPENAI_API_KEY example_world)" "truthy (OPENAI_API_KEY empty_response_world)"
  "truthy (OPENAI_API_KEY no_data_world)" "truthy (OPENAI_API_KEY failing_world)"
  by (simp_all add: example_defs str_def)

lemma example_prompt: "str ''A sunset'' \<noteq> []"
  by (simp add: str_def)

lemma single_image_only_examples:
  "single_image_only (str ''dall-e-3'')" "\<not> single_image_only (str ''dall-e-2'')"
  by (simp_all add: single_image_only_def str_def)

theorem count_sent_witness:
  "generation_calls (trace (main example_world three_legacy_cli))
     = [(str ''dall-e-2'', str ''A sunset'', Num 3, str ''1024x1024'')]
   \<and> parseInt (opt_n three_legacy_cli) = Num 3 \<and> is_positive_integer (Num 3)
   \<and> \<not> single_image_only (opt_model three_legacy_cli)"
proof -
  have calls: "generation_calls (trace (main example_world three_legacy_cli))
     = [(str ''dall-e-2'', str ''A sunset'', Num 3, str ''1024x1024'')]"
    by (simp add: main_resolved [OF three_legacy_cli_parsed] generateImages_calls example_key
          example_prompt effective_count_def single_image_only_examples)
  have "is_positive_integer (parseInt (opt_n three_legacy_cli))"
    by (simp add: example_defs js_defs is_positive_integer_def)
  with count_sent [OF calls] have "is_positive_integer (Num 3)"
    by blast
  moreover have "parseInt (opt_n three_legacy_cli) = Num 3"
    by (simp add: example_defs js_defs)
  moreover have "\<not> single_image_only (opt_model three_legacy_cli)"
    by (simp add: example_defs single_image_only_def str_def)
  ultimately show ?thesis using calls by blast
qed

text \<open>
  Read literally, the specification's sentence fails for \<open>--n 0\<close>: the generation call is made with count 0.
\<close>

theorem count_sent_counterexample:
  "opt_n zero_count_cli = str ''0''
   \<and> generation_calls (trace (main example_world zero_count_cli))
       = [(str ''dall-e-3'', str ''A sunset'', Num 0, str ''1024x1024'')]
   \<and> \<not> is_positive_integer (Num 0)"
proof -
  have "generation_calls (trace (main example_world zero_count_cli))
       = [(str ''dall-e-3'', str ''A sunset'', Num 0, str ''1024x1024'')]"
    by (simp add: main_resolved [OF zero_count_cli_parsed] generateImages_calls example_key
          example_prompt effective_count_def)
  then show ?thesis
    by (simp add: is_positive_integer_def example_defs)
qed

section \<open>After the generation call\<close>

lemma main_generated:
  assumes "generation_calls (trace (main w c)) = [(m, q, k, s)]"
    and "generate w m q k s = Inr res"
  shows "\<exists>started. fetches started = [] \<and> files_written started = []
           \<and> errors_reported started = []
           \<and> main w c =
               (let entries = (case data res of None \<Rightarrow> [] | Some ds \<Rightarrow> ds)
                in if entries = [] then
                     \<lparr>exit_code = 1,
                      trace = started @ [Console_error [Str (str ''No images were generated'')]]\<rparr>
                   else
                     \<lparr>exit_code = 0,
                      trace = started @ download_loop w 0 entries
                              @ [Console_log [Str (0x0A # str ''Done!'')]]\<rparr>)"
proof -
  from main_called [OF assms(1)] obtain p where p: "parseArgs w c = Inr p"
    "truthy (OPENAI_API_KEY w)" "truthy (prompt p)" "m = model p" "q = the (prompt p)"
    "k = effective_count (model p) (n p)" "s = size' p"
    by blast
  from generateImages_reached [OF p(2,3)] obtain started where st:
    "fetches started = []" "files_written started = []" "errors_reported started = []"
    "generateImages w p =
             (case generate w (model p) (the (prompt p)) (effective_count (model p) (n p)) (size' p) of
                Inl error \<Rightarrow> \<lparr>exit_code = 1, trace = started @ report_error error\<rparr>
              | Inr res \<Rightarrow>
                  (let entries = (case data res of None \<Rightarrow> [] | Some ds \<Rightarrow> ds);
                       generated = started @
                         [Console_log [Str (0x0A # str ''Successfully generated ''),
                                       Number (Num (int (length entries))), Str (str '' image(s):'')]]
                   in if entries = [] then
                        \<lparr>exit_code = 1,
                         trace = generated @ [Console_error [Str (str ''No images were generated'')]]\<rparr>
                      else
                        \<lparr>exit_code = 0,
                         trace = generated @ download_loop w 0 entries
                                 @ [Console_log [Str (0x0A # str ''Done!'')]]\<rparr>))"
    by blast
  let ?entries = "case data res of None \<Rightarrow> [] | Some ds \<Rightarrow> ds"
  let ?generated = "started @
     [Console_log [Str (0x0A # str ''Successfully generated ''),
                   Number (Num (int (length ?entries))), Str (str '' image(s):'')]]"
  have "fetches ?generated = [] \<and> files_written ?generated = []
        \<and> errors_reported ?generated = []"
    using st(1-3) by simp
  moreover have "main w c =
               (let entries = ?entries
                in if entries = [] then
                     \<lparr>exit_code = 1,
                      trace = ?generated @ [Console_error [Str (str ''No images were generated'')]]\<rparr>
                   else
                     \<lparr>exit_code = 0,
                      trace = ?generated @ download_loop w 0 entries
                              @ [Console_log [Str (0x0A # str ''Done!'')]]\<rparr>)"
    using st(4) assms(2) p by (simp add: main_def Let_def)
  ultimately show ?thesis by blast
qed

text \<open>
  C8. When the generation call succeeds and returns no entry (an empty \<open>data\<close>, or no
  \<open>data\<close> at all), the process exits with code 1; nothing is downloaded and no file is
  written.
\<close>

theorem no_images_generated:
  assumes "generation_calls (trace (main w c)) = [(m, q, k, s)]"
    and "generate w m q k s = Inr res"
    and "data res = None \<or> data res = Some []"
  shows "exit_code (main w c) = 1 \<and> files_written (trace (main w c)) = []
         \<and> fetches (trace (main w c)) = []
         \<and> errors_reported (trace (main w c)) = [[Str (str ''No images were generated'')]]"
proof -
  from assms(3) have "(case data res of None \<Rightarrow> [] | Some ds \<Rightarrow> ds) = []"
    by auto
  with main_generated [OF assms(1,2)] show ?thesis
    by auto
qed

lemma positional_cli_calls:
  assumes "truthy (OPENAI_API_KEY w)"
  shows "generation_calls (trace (main w positional_cli))
           = [(str ''dall-e-3'', str ''A sunset'', Num 1, str ''1024x1024'')]"
  using assms
  by (simp add: main_resolved [OF positional_cli_parsed] generateImages_calls example_prompt
        effective_count_def)

theorem no_images_generated_witness:
  "generation_calls (trace (main empty_response_world positional_cli))
     = [(str ''dall-e-3'', str ''A sunset'', Num 1, str ''1024x1024'')]
   \<and> generate empty_response_world (str ''dall-e-3'') (str ''A sunset'') (Num 1) (str ''1024x1024'')
     = Inr \<lparr>data = Some []\<rparr>
   \<and> exit_code (main empty_response_world positional_cli) = 1
   \<and> files_written (trace (main empty_response_world positional_cli)) = []
   \<and> generation_calls (trace (main no_data_world positional_cli))
     = [(str ''dall-e-3'', str ''A sunset'', Num 1, str ''1024x1024'')]
   \<and> generate no_data_world (str ''dall-e-3'') (str ''A sunset'') (Num 1) (str ''1024x1024'')
     = Inr \<lparr>data = None\<rparr>
   \<and> exit_code (main no_data_world positional_cli) = 1
   \<and> files_written (trace (main no_data_world positional_cli)) = []"
proof -
  note c1 = positional_cli_calls [OF example_key(2)]
  note c2 = positional_cli_calls [OF example_key(3)]
  have g1: "generate empty_response_world (str ''dall-e-3'') (str ''A sunset'') (Num 1)
              (str ''1024x1024'') = Inr \<lparr>data = Some []\<rparr>"
    by (simp add: example_defs)
  have g2: "generate no_data_world (str ''dall-e-3'') (str ''A sunset'') (Num 1)
              (str ''1024x1024'') = Inr \<lparr>data = None\<rparr>"
    by (simp add: example_defs)
  from no_images_generated [OF c1 g1]
  have r1: "exit_code (main empty_response_world positional_cli) = 1
            \<and> files_written (trace (main empty_response_world positional_cli)) = []"
    by simp
  from no_images_generated [OF c2 g2]
  have r2: "exit_code (main no_data_world positional_cli) = 1
            \<and> files_written (trace (main no_data_world positional_cli)) = []"
    by simp
  from c1 g1 r1 c2 g2 r2 show ?thesis by blast
qed

text \<open>
  C3. Once the generation call has succeeded with at least one entry, the process
  exits with code 0 whatever happens to the entries. Every entry is processed in order:
  every entry that has a URL is downloaded, and each failure (no URL, a failed download,
  a failed write) is reported in an error line that names the entry.
\<close>

theorem per_item_failures:
  assumes "generation_calls (trace (main w c)) = [(m, q, k, s)]"
    and "generate w m q k s = Inr res"
    and "data res = Some entries" and "entries \<noteq> []"
  shows "exit_code (main w c) = 0
       \<and> (\<exists>started. trace (main w c)
            = started
              @ concat (map (\<lambda>i. download_item w i (entries ! i)) [0..<length entries])
              @ [Console_log [Str (0x0A # str ''Done!'')]])
       \<and> fetches (trace (main w c))
           = map (\<lambda>d. the (url d)) (filter (\<lambda>d. truthy (url d)) entries)
       \<and> (\<forall>i<length entries.
            (\<not> truthy (url (entries ! i)) \<longrightarrow>
               no_url_failure i \<in> set (errors_reported (trace (main w c))))
          \<and> (\<forall>errorMessage.
               truthy (url (entries ! i))
               \<and> fetch_arrayBuffer w i (the (url (entries ! i))) = Inl errorMessage \<longrightarrow>
               download_failure i errorMessage \<in> set (errors_reported (trace (main w c))))
          \<and> (\<forall>buffer errorMessage.
               truthy (url (entries ! i))
               \<and> fetch_arrayBuffer w i (the (url (entries ! i))) = Inr buffer
               \<and> writeFile w i (filepath w i) buffer = Some errorMessage \<longrightarrow>
               download_failure i errorMessage \<in> set (errors_reported (trace (main w c)))))"
proof -
  from main_generated [OF assms(1,2)] assms(3,4) obtain started where
    st: "fetches started = []"
    and tr: "main w c = \<lparr>exit_code = 0,
                trace = started @ download_loop w 0 entries
                        @ [Console_log [Str (0x0A # str ''Done!'')]]\<rparr>"
    by auto
  let ?item = "\<lambda>i. download_item w i (entries ! i)"
  have loop: "download_loop w 0 entries = concat (map ?item [0..<length entries])"
    by (simp add: download_loop_concat)
  have reported: "set (errors_reported (?item i)) \<subseteq> set (errors_reported (trace (main w c)))"
    if "i < length entries" for i
    using that by (auto simp add: tr loop errors_reported_concat)
  have "exit_code (main w c) = 0"
    by (simp add: tr)
  moreover have "\<exists>started. trace (main w c)
            = started @ concat (map ?item [0..<length entries])
              @ [Console_log [Str (0x0A # str ''Done!'')]]"
    using tr loop by simp
  moreover have "fetches (trace (main w c))
           = map (\<lambda>d. the (url d)) (filter (\<lambda>d. truthy (url d)) entries)"
    by (simp add: tr st fetches_download_loop)
  moreover have "no_url_failure i \<in> set (errors_reported (trace (main w c)))"
    if "i < length entries" and "\<not> truthy (url (entries ! i))" for i
    using reported [OF that(1)] that(2) by (simp add: errors_reported_download_item)
  moreover have "download_failure i errorMessage \<in> set (errors_reported (trace (main w c)))"
    if "i < length entries" and "truthy (url (entries ! i))"
      and "fetch_arrayBuffer w i (the (url (entries ! i))) = Inl errorMessage"
    for i errorMessage
    using reported [OF that(1)] that(2,3) by (simp add: errors_reported_download_item)
  moreover have "download_failure i errorMessage \<in> set (errors_reported (trace (main w c)))"
    if "i < length entries" and "truthy (url (entries ! i))"
      and "fetch_arrayBuffer w i (the (url (entries ! i))) = Inr buffer"
      and "writeFile w i (filepath w i) buffer = Some errorMessage"
    for i buffer errorMessage
    using reported [OF that(1)] that(2-4) by (simp add: errors_reported_download_item)
  ultimately show ?thesis by blast
qed

theorem per_item_failures_witness:
  "generation_calls (trace (main failing_world positional_cli))
     = [(str ''dall-e-3'', str ''A sunset'', Num 1, str ''1024x1024'')]
   \<and> generate failing_world (str ''dall-e-3'') (str ''A sunset'') (Num 1) (str ''1024x1024'')
     = Inr \<lparr>data = Some [\<lparr>url = Some (str ''https://img/a'')\<rparr>, \<lparr>url = None\<rparr>,
                          \<lparr>url = Some (str ''https://img/c'')\<rparr>]\<rparr>
   \<and> fetch_arrayBuffer failing_world 0 (str ''https://img/a'') = Inl (str ''fetch failed'')
   \<and> fetch_arrayBuffer failing_world 2 (str ''https://img/c'') = Inr []
   \<and> writeFile failing_world 2 (filepath failing_world 2) []
     = Some (str ''EACCES: permission denied'')
   \<and> exit_code (main failing_world positional_cli) = 0
   \<and> fetches (trace (main failing_world positional_cli))
     = [str ''https://img/a'', str ''https://img/c'']
   \<and> download_failure 0 (str ''fetch failed'')
     \<in> set (errors_reported (trace (main failing_world positional_cli)))
   \<and> no_url_failure 1 \<in> set (errors_reported (trace (main failing_world positional_cli)))
   \<and> download_failure 2 (str ''EACCES: permission denied'')
     \<in> set (errors_reported (trace (main failing_world positional_cli)))"
proof -
  let ?entries = "[\<lparr>url = Some (str ''https://img/a'')\<rparr>, \<lparr>url = None\<rparr>,
                   \<lparr>url = Some (str ''https://img/c'')\<rparr>]"
  note calls = positional_cli_calls [OF example_key(4)]
  have g: "generate failing_world (str ''dall-e-3'') (str ''A sunset'') (Num 1) (str ''1024x1024'')
             = Inr \<lparr>data = Some ?entries\<rparr>"
    by (simp add: example_defs)
  have d: "data \<lparr>data = Some ?entries\<rparr> = Some ?entries" and ne: "?entries \<noteq> []"
    by simp_all
  have urls: "truthy (url (?entries ! 0)) \<and> the (url (?entries ! 0)) = str ''https://img/a''
      \<and> \<not> truthy (url (?entries ! 1))
      \<and> truthy (url (?entries ! 2)) \<and> the (url (?entries ! 2)) = str ''https://img/c''"
    by (simp add: str_def)
  have f0: "fetch_arrayBuffer failing_world 0 (str ''https://img/a'') = Inl (str ''fetch failed'')"
    by (simp add: example_defs)
  have f2: "fetch_arrayBuffer failing_world 2 (str ''https://img/c'') = Inr []"
    by (simp add: example_defs)
  have w2: "writeFile failing_world 2 (filepath failing_world 2) []
              = Some (str ''EACCES: permission denied'')"
    by (simp add: example_defs)
  note result = per_item_failures [OF calls g d ne]
  from result have code: "exit_code (main failing_world positional_cli) = 0"
    by blast
  from result have "fetches (trace (main failing_world positional_cli))
      = map (\<lambda>d. the (url d)) (filter (\<lambda>d. truthy (url d)) ?entries)"
    by blast
  then have fetched: "fetches (trace (main failing_world positional_cli))
      = [str ''https://img/a'', str ''https://img/c'']"
    by (simp add: str_def)
  from result have each: "\<forall>i<length ?entries.
            (\<not> truthy (url (?entries ! i)) \<longrightarrow>
               no_url_failure i \<in> set (errors_reported (trace (main failing_world positional_cli))))
          \<and> (\<forall>errorMessage.
               truthy (url (?entries ! i))
               \<and> fetch_arrayBuffer failing_world i (the (url (?entries ! i))) = Inl errorMessage \<longrightarrow>
               download_failure i errorMessage
                 \<in> set (errors_reported (trace (main failing_world positional_cli))))
          \<and> (\<forall>buffer errorMessage.
               truthy (url (?entries ! i))
               \<and> fetch_arrayBuffer failing_world i (the (url (?entries ! i))) = Inr buffer
               \<and> writeFile failing_world i (filepath failing_world i) buffer = Some errorMessage \<longrightarrow>
               download_failure i errorMessage
                 \<in> set (errors_reported (trace (main failing_world positional_cli))))"
    by blast
  have "(0::nat) < length ?entries" by simp
  with each urls f0 have e0: "download_failure 0 (str ''fetch failed'')
     \<in> set (errors_reported (trace (main failing_world positional_cli)))"
    by metis
  have "(1::nat) < length ?entries" by simp
  with each urls have e1:
    "no_url_failure 1 \<in> set (errors_reported (trace (main failing_world positional_cli)))"
    by metis
  have "(2::nat) < length ?entries" by simp
  with each urls f2 w2 have e2: "download_failure 2 (str ''EACCES: permission denied'')
     \<in> set (errors_reported (trace (main failing_world positional_cli)))"
    by metis
  from calls g f0 f2 w2 code fetched e0 e1 e2 show ?thesis by blast
qed

section \<open>File names\<close>

lemma digit_char_value:
  assumes "d < 10"
  shows "is_digit (digit_char d)" and "digit_value (digit_char d) = d"
proof -
  from assms have "unat (of_nat (48 + d) :: 16 word) = 48 + d"
    by (subst unat_of_nat) simp
  then show "is_digit (digit_char d)" and "digit_value (digit_char d) = d"
    using assms by (simp_all add: is_digit_def digit_char_def digit_value_def word_le_nat_alt)
qed

lemma decimal_digits: "decimal k \<noteq> [] \<and> list_all is_digit (decimal k)"
proof (induction k rule: decimal.induct)
  case (1 k)
  show ?case
  proof (cases "k < 10")
    case True
    then show ?thesis
      by (simp add: decimal.simps [of k] digit_char_value)
  next
    case False
    with "1" show ?thesis
      by (simp add: decimal.simps [of k] digit_char_value)
  qed
qed

lemma digits_value_decimal: "digits_value (decimal k) = k"
proof (induction k rule: decimal.induct)
  case (1 k)
  show ?case
  proof (cases "k < 10")
    case True
    then show ?thesis
      by (simp add: decimal.simps [of k] digits_value_def digit_char_value)
  next
    case False
    with "1" have "digits_value (decimal (k div 10)) = k div 10"
      by simp
    with False show ?thesis
      by (simp add: decimal.simps [of k] digits_value_def digit_char_value)
  qed
qed

lemma decimal_inj: "decimal j = decimal k \<Longrightarrow> j = k"
  by (metis digits_value_decimal)

lemma split_at_separator:
  assumes "xs @ a # ys = xs' @ a # ys'" and "a \<notin> set xs" and "a \<notin> set xs'"
  shows "xs = xs' \<and> ys = ys'"
  using assms
proof (induction xs arbitrary: xs')
  case Nil
  then show ?case by (cases xs') auto
next
  case (Cons x xs)
  then show ?case by (cases xs') auto
qed

lemma underscore_not_in_decimal: "0x5F \<notin> set (decimal k)"
proof
  assume "0x5F \<in> set (decimal k)"
  moreover have "list_all is_digit (decimal k)"
    by (simp add: decimal_digits)
  ultimately have "is_digit 0x5F"
    by (simp add: list_all_iff)
  then show False
    by (simp add: is_digit_def)
qed

lemma filename_inj:
  assumes "filename t i = filename t' i'"
  shows "t = t' \<and> i = i'"
proof -
  from assms have "decimal t @ 0x5F # decimal (i + 1) = decimal t' @ 0x5F # decimal (i' + 1)"
    by (simp add: filename_def str_def)
  then have "decimal t = decimal t' \<and> decimal (i + 1) = decimal (i' + 1)"
    by (rule split_at_separator) (simp_all add: underscore_not_in_decimal)
  then show ?thesis
    by (auto dest: decimal_inj)
qed

lemma length_filter_positions:
  "length (filter (\<lambda>i. P (xs ! i)) [0..<length xs]) = length (filter P xs)"
proof (induction xs rule: rev_induct)
  case Nil
  show ?case by simp
next
  case (snoc x xs)
  have "filter (\<lambda>i. P ((xs @ [x]) ! i)) [0..<length xs] = filter (\<lambda>i. P (xs ! i)) [0..<length xs]"
    by (rule filter_cong) (simp_all add: nth_append)
  with snoc show ?case by simp
qed

text \<open>
  C4 (as amended). When the generation call returns N entries, N at least 1, of which M
  lack a URL, and every download and write for the other entries succeeds, exactly
  N - M files are written, with pairwise distinct names, and the process exits with
  code 0. The file for the entry at 0-based position \<open>i\<close> is named
  \<open>generated_image_<digits>_<index>.png\<close> in the working directory, where \<open><digits>\<close> is
  the decimal text of the clock and \<open><index>\<close> the decimal text of \<open>i + 1\<close>.
\<close>

theorem files_written_for_entries:
  assumes "generation_calls (trace (main w c)) = [(m, q, k, s)]"
    and "generate w m q k s = Inr res"
    and "data res = Some entries" and "entries \<noteq> []"
    and "\<forall>i<length entries. truthy (url (entries ! i)) \<longrightarrow>
           (\<exists>buffer. fetch_arrayBuffer w i (the (url (entries ! i))) = Inr buffer
                     \<and> writeFile w i (filepath w i) buffer = None)"
  shows "exit_code (main w c) = 0
       \<and> files_written (trace (main w c))
           = map (filepath w) (filter (\<lambda>i. truthy (url (entries ! i))) [0..<length entries])
       \<and> length (files_written (trace (main w c)))
           = length entries - length (filter (\<lambda>d. \<not> truthy (url d)) entries)
       \<and> (\<forall>i. filepath w i
             = join w (cwd w) (str ''generated_image_'' @ decimal (Date_now w i) @ str ''_''
                               @ decimal (i + 1) @ str ''.png''))
       \<and> (\<forall>j. decimal j \<noteq> [] \<and> list_all is_digit (decimal j) \<and> digits_value (decimal j) = j)
       \<and> distinct (map (\<lambda>i. filename (Date_now w i) i)
                     (filter (\<lambda>i. truthy (url (entries ! i))) [0..<length entries]))"
proof -
  from main_generated [OF assms(1,2)] assms(3,4) obtain started where
    st: "files_written started = []"
    and tr: "main w c = \<lparr>exit_code = 0,
                trace = started @ download_loop w 0 entries
                        @ [Console_log [Str (0x0A # str ''Done!'')]]\<rparr>"
    by auto
  let ?has_url = "\<lambda>i. truthy (url (entries ! i))"
  have each: "map (\<lambda>i. files_written (download_item w i (entries ! i))) [0..<length entries]
          = map (\<lambda>i. if ?has_url i then [filepath w i] else []) [0..<length entries]"
  proof (rule map_cong [OF refl])
    fix i assume "i \<in> set [0..<length entries]"
    then have "i < length entries" by simp
    with assms(5) show "files_written (download_item w i (entries ! i))
                          = (if ?has_url i then [filepath w i] else [])"
      by (auto simp add: files_written_download_item)
  qed
  have "files_written (trace (main w c))
      = concat (map (\<lambda>i. files_written (download_item w i (entries ! i))) [0..<length entries])"
    by (simp add: tr st download_loop_concat files_written_concat comp_def)
  also have "\<dots> = concat (map (\<lambda>i. if ?has_url i then [filepath w i] else []) [0..<length entries])"
    by (simp only: each)
  also have "\<dots> = map (filepath w) (filter ?has_url [0..<length entries])"
    by (rule concat_optional)
  finally have written: "files_written (trace (main w c))
      = map (filepath w) (filter ?has_url [0..<length entries])" .
  have "length (filter ?has_url [0..<length entries])
          = length (filter (\<lambda>d. truthy (url d)) entries)"
    by (rule length_filter_positions)
  moreover have "length (filter (\<lambda>d. truthy (url d)) entries)
                   + length (filter (\<lambda>d. \<not> truthy (url d)) entries) = length entries"
    by (rule sum_length_filter_compl)
  ultimately have counted: "length (files_written (trace (main w c)))
      = length entries - length (filter (\<lambda>d. \<not> truthy (url d)) entries)"
    by (simp add: written)
  have "inj_on (\<lambda>i. filename (Date_now w i) i) (set (filter ?has_url [0..<length entries]))"
    by (rule inj_onI) (simp add: filename_inj)
  then have names: "distinct (map (\<lambda>i. filename (Date_now w i) i)
                               (filter ?has_url [0..<length entries]))"
    by (simp add: distinct_map)
  have "exit_code (main w c) = 0"
    by (simp add: tr)
  with written counted names show ?thesis
    by (simp add: filepath_def filename_def decimal_digits digits_value_decimal)
qed

theorem files_written_for_entries_witness:
  "generation_calls (trace (main example_world positional_cli))
     = [(str ''dall-e-3'', str ''A sunset'', Num 1, str ''1024x1024'')]
   \<and> generate example_world (str ''dall-e-3'') (str ''A sunset'') (Num 1) (str ''1024x1024'')
     = Inr \<lparr>data = Some [\<lparr>url = Some (str ''https://img/a'')\<rparr>, \<lparr>url = None\<rparr>,
                          \<lparr>url = Some (str ''https://img/c'')\<rparr>]\<rparr>
   \<and> (\<exists>buffer. fetch_arrayBuffer example_world 0 (str ''https://img/a'') = Inr buffer
        \<and> writeFile example_world 0 (filepath example_world 0) buffer = None)
   \<and> (\<exists>buffer. fetch_arrayBuffer example_world 2 (str ''https://img/c'') = Inr buffer
        \<and> writeFile example_world 2 (filepath example_world 2) buffer = None)
   \<and> exit_code (main example_world positional_cli) = 0
   \<and> files_written (trace (main example_world positional_cli))
     = [str ''/home/user/generated_image_1700000000000_1.png'',
        str ''/home/user/generated_image_1700000000002_3.png'']
   \<and> length (files_written (trace (main example_world positional_cli))) = 3 - 1"
proof -
  let ?entries = "[\<lparr>url = Some (str ''https://img/a'')\<rparr>, \<lparr>url = None\<rparr>,
                   \<lparr>url = Some (str ''https://img/c'')\<rparr>]"
  note calls = positional_cli_calls [OF example_key(1)]
  have g: "generate example_world (str ''dall-e-3'') (str ''A sunset'') (Num 1) (str ''1024x1024'')
             = Inr \<lparr>data = Some ?entries\<rparr>"
    by (simp add: example_defs)
  have d: "data \<lparr>data = Some ?entries\<rparr> = Some ?entries" and ne: "?entries \<noteq> []"
    by simp_all
  have ok: "\<forall>i<length ?entries. truthy (url (?entries ! i)) \<longrightarrow>
           (\<exists>buffer. fetch_arrayBuffer example_world i (the (url (?entries ! i))) = Inr buffer
                     \<and> writeFile example_world i (filepath example_world i) buffer = None)"
    by (simp add: example_defs)
  have ok0: "\<exists>buffer. fetch_arrayBuffer example_world 0 (str ''https://img/a'') = Inr buffer
        \<and> writeFile example_world 0 (filepath example_world 0) buffer = None"
    by (simp add: example_defs)
  have ok2: "\<exists>buffer. fetch_arrayBuffer example_world 2 (str ''https://img/c'') = Inr buffer
        \<and> writeFile example_world 2 (filepath example_world 2) buffer = None"
    by (simp add: example_defs)
  have positions: "filter (\<lambda>i. truthy (url (?entries ! i))) [0..<length ?entries] = [0, 2]"
    by (simp add: str_def nth_Cons')
  have paths: "filepath example_world 0 = str ''/home/user/generated_image_1700000000000_1.png''"
    "filepath example_world 2 = str ''/home/user/generated_image_1700000000002_3.png''"
    by (simp_all add: filepath_def filename_def example_defs decimal.simps js_defs)
  note result = files_written_for_entries [OF calls g d ne ok]
  from result have code: "exit_code (main example_world positional_cli) = 0"
    by blast
  from result have "files_written (trace (main example_world positional_cli))
      = map (filepath example_world)
            (filter (\<lambda>i. truthy (url (?entries ! i))) [0..<length ?entries])"
    by blast
  then have written: "files_written (trace (main example_world positional_cli))
     = [str ''/home/user/generated_image_1700000000000_1.png'',
        str ''/home/user/generated_image_1700000000002_3.png'']"
    by (simp only: positions list.map paths)
  then have "length (files_written (trace (main example_world positional_cli))) = 3 - 1"
    by simp
  with calls g ok0 ok2 code written show ?thesis by blast
qed

text \<open>
  Read literally, the specification's sentence fails for N = 0: when the call returns no entry, no file is
  written but the process exits with code 1, not 0.
\<close>

theorem files_written_for_entries_counterexample:
  "generation_calls (trace (main empty_response_world positional_cli))
     = [(str ''dall-e-3'', str ''A sunset'', Num 1, str ''1024x1024'')]
   \<and> generate empty_response_world (str ''dall-e-3'') (str ''A sunset'') (Num 1)
       (str ''1024x1024'') = Inr \<lparr>data = Some []\<rparr>
   \<and> files_written (trace (main empty_response_world positional_cli)) = []
   \<and> exit_code (main empty_response_world positional_cli) = 1
   \<and> exit_code (main empty_response_world positional_cli) \<noteq> 0"
proof -
  note calls = positional_cli_calls [OF example_key(2)]
  have g: "generate empty_response_world (str ''dall-e-3'') (str ''A sunset'') (Num 1)
             (str ''1024x1024'') = Inr \<lparr>data = Some []\<rparr>"
    by (simp add: example_defs)
  from main_generated [OF calls g]
  have "files_written (trace (main empty_response_world positional_cli)) = []
        \<and> exit_code (main empty_response_world positional_cli) = 1"
    by auto
  with calls g show ?thesis by simp
qed

end
